theory Spec2Isabelle
  imports Main
begin

section \<open>Text, literals and integer formatting\<close>

text \<open>
  A Python \<open>str\<close> is a sequence of Unicode code points; \<open>len\<close> counts code points and
  iteration yields one code point at a time. A code point is modelled by its number.
\<close>

type_synonym codepoint = nat
type_synonym pystr = "codepoint list"

abbreviation NL :: codepoint where
  "NL \<equiv> 10"

abbreviation QUOTE :: codepoint where
  "QUOTE \<equiv> 39"

text \<open>An ASCII literal of the source, as code points.\<close>

definition lit :: "string \<Rightarrow> pystr" where
  "lit s = map of_char s"

text \<open>Decimal digits of a natural number, most significant first.\<close>

fun str_nat :: "nat \<Rightarrow> pystr" where
  "str_nat n = (if n < 10 then [48 + n] else str_nat (n div 10) @ [48 + n mod 10])"

declare str_nat.simps [simp del]

text \<open>What an f-string renders for an \<open>int\<close>.\<close>

definition str_int :: "int \<Rightarrow> pystr" where
  "str_int i = (if i < 0 then 45 # str_nat (nat (- i)) else str_nat (nat i))"

section \<open>The built-ins used by \<open>analyze_text\<close>\<close>

text \<open>
  \<open>s.count(sub)\<close>: the number of non-overlapping occurrences of \<open>sub\<close> in \<open>s\<close>, found
  from the left; after an occurrence the search goes on behind it. For the empty
  \<open>sub\<close> Python answers \<open>len(s) + 1\<close>.
\<close>

function count_from :: "'a list \<Rightarrow> 'a list \<Rightarrow> nat" where
  "count_from sub s =
     (if sub = [] \<or> length s < length sub then 0
      else if take (length sub) s = sub then 1 + count_from sub (drop (length sub) s)
      else count_from sub (tl s))"
  by pat_completeness auto
termination
proof (relation "measure (\<lambda>(sub, s). length s)")
  fix sub s :: "'a list"
  assume "\<not> (sub = [] \<or> length s < length sub)"
  then have "length s - length sub < length s" and "length (tl s) < length s"
    by (cases sub; cases s; simp)+
  then show "((sub, drop (length sub) s), (sub, s)) \<in> measure (\<lambda>(sub, s). length s)"
    and "((sub, tl s), (sub, s)) \<in> measure (\<lambda>(sub, s). length s)"
    by simp_all
qed simp

declare count_from.simps [simp del]

definition py_count :: "'a list \<Rightarrow> 'a list \<Rightarrow> int" where
  "py_count s sub = (if sub = [] then int (length s) + 1 else int (count_from sub s))"

text \<open>
  A \<open>dict\<close> keeps its keys in insertion order, so it is an association list with
  distinct keys. \<open>d.get(k, default)\<close> reads; \<open>d[k] = v\<close> overwrites the value of a key
  that is present, where it stands, and appends a key that is new.
\<close>

type_synonym ('k, 'v) dict = "('k \<times> 'v) list"

fun dict_get :: "('k, 'v) dict \<Rightarrow> 'k \<Rightarrow> 'v \<Rightarrow> 'v" where
  "dict_get [] k dflt = dflt"
| "dict_get ((k', v') # d) k dflt = (if k' = k then v' else dict_get d k dflt)"

fun dict_set :: "('k, 'v) dict \<Rightarrow> 'k \<Rightarrow> 'v \<Rightarrow> ('k, 'v) dict" where
  "dict_set [] k v = [(k, v)]"
| "dict_set ((k', v') # d) k v = (if k' = k then (k', v) # d else (k', v') # dict_set d k v)"

section \<open>The analyzer\<close>

text \<open>The dictionary returned by \<open>analyze_text\<close> (lines 20 to 25).\<close>

record stats =
  chars :: int
  lines :: int
  empty_lines :: int
  freq :: "(codepoint, int) dict"

text \<open>The loop of lines 17 and 18, started on the dictionary built so far.\<close>

fun freq_loop :: "(codepoint, int) dict \<Rightarrow> pystr \<Rightarrow> (codepoint, int) dict" where
  "freq_loop char_freq [] = char_freq"
| "freq_loop char_freq (char # rest) =
     freq_loop (dict_set char_freq char (dict_get char_freq char 0 + 1)) rest"

text \<open>Lines 12 to 25: the statistics of a text that has been read.\<close>

definition analyze :: "pystr \<Rightarrow> stats" where
  "analyze text =
     (let num_chars = int (length text);
          num_empty_lines = py_count text [NL, NL];
          num_lines = py_count text [NL] + 1;
          char_freq = freq_loop [] text
      in \<lparr>chars = num_chars, lines = num_lines, empty_lines = num_empty_lines,
          freq = char_freq\<rparr>)"

section \<open>The loader\<close>

text \<open>
  What a path names. Only a missing path is handled by the program; a directory, a file
  that may not be read and a file that is not UTF-8 make \<open>open\<close> or \<open>read\<close> raise.
  The content of a text file is given decoded.
\<close>

datatype fs_entry = TextFile pystr | Directory | Unreadable | Undecodable

type_synonym fs = "pystr \<rightharpoonup> fs_entry"

datatype py_error = TypeError | IsADirectoryError | PermissionError | UnicodeDecodeError

text \<open>
  The file is opened in text mode with the default \<open>newline=None\<close>: on reading, the line
  endings \<open>\r\n\<close> and \<open>\r\<close> arrive as \<open>\n\<close>.
\<close>

fun universal_newlines :: "pystr \<Rightarrow> pystr" where
  "universal_newlines [] = []"
| "universal_newlines [c] = (if c = 13 then [NL] else [c])"
| "universal_newlines (c # c' # cs) =
     (if c = 13 \<and> c' = NL then NL # universal_newlines cs
      else if c = 13 then NL # universal_newlines (c' # cs)
      else c # universal_newlines (c' # cs))"

text \<open>\<open>print(s)\<close> on the standard output written so far.\<close>

definition print :: "pystr \<Rightarrow> pystr \<Rightarrow> pystr" where
  "print out s = out @ s @ [NL]"

text \<open>
  \<open>analyze_text\<close>, lines 4 to 25: the standard output after the call, and either the
  exception raised or the value returned, \<open>None\<close> for a missing file.
\<close>

definition analyze_text :: "fs \<Rightarrow> pystr \<Rightarrow> pystr \<Rightarrow> pystr \<times> (py_error + stats option)" where
  "analyze_text files file_path out =
     (case files file_path of
        None \<Rightarrow> (print out (lit ''File not found: '' @ file_path), Inr None)
      | Some Directory \<Rightarrow> (out, Inl IsADirectoryError)
      | Some Unreadable \<Rightarrow> (out, Inl PermissionError)
      | Some Undecodable \<Rightarrow> (out, Inl UnicodeDecodeError)
      | Some (TextFile raw) \<Rightarrow> (out, Inr (Some (analyze (universal_newlines raw)))))"

section \<open>The command line\<close>

text \<open>The namespace that \<open>parse_args\<close> returns.\<close>

record args =
  file_path :: pystr
  count_lines :: bool
  count_chars :: bool
  count_empty_lines :: bool
  count_freq :: bool

text \<open>A statement: from the output so far to the output after it, and whether it raised.\<close>

type_synonym stmt = "pystr \<Rightarrow> pystr \<times> (py_error + unit)"

text \<open>\<open>stats[key]\<close>: subscripting \<open>None\<close> raises \<open>TypeError\<close>.\<close>

definition subscript :: "stats option \<Rightarrow> (stats \<Rightarrow> 'a) \<Rightarrow> py_error + 'a" where
  "subscript st key = (case st of None \<Rightarrow> Inl TypeError | Some s \<Rightarrow> Inr (key s))"

text \<open>\<open>print(f"<label>{stats[key]}")\<close>: the subscript is evaluated before anything is printed.\<close>

definition print_field :: "pystr \<Rightarrow> (stats \<Rightarrow> int) \<Rightarrow> stats option \<Rightarrow> stmt" where
  "print_field label key st out =
     (case subscript st key of
        Inl e \<Rightarrow> (out, Inl e)
      | Inr v \<Rightarrow> (print out (label @ str_int v), Inr ()))"

text \<open>The loop over \<open>stats["freq"].items()\<close>.\<close>

fun print_items :: "(codepoint, int) dict \<Rightarrow> pystr \<Rightarrow> pystr" where
  "print_items [] out = out"
| "print_items ((char, n) # items) out =
     print_items items (print out ([QUOTE, char, QUOTE] @ lit '': '' @ str_int n))"

text \<open>The header is printed first, then \<open>stats["freq"]\<close> is evaluated.\<close>

definition print_freq :: "stats option \<Rightarrow> stmt" where
  "print_freq st out =
     (let out1 = print out (lit ''Character frequency:'')
      in case subscript st freq of
           Inl e \<Rightarrow> (out1, Inl e)
         | Inr items \<Rightarrow> (print_items items out1, Inr ()))"

text \<open>\<open>if b: s\<close>, and statements one after another: an exception ends the run.\<close>

definition if_then :: "bool \<Rightarrow> stmt \<Rightarrow> stmt" where
  "if_then b s out = (if b then s out else (out, Inr ()))"

fun seq :: "stmt list \<Rightarrow> stmt" where
  "seq [] out = (out, Inr ())"
| "seq (s # ss) out =
     (case s out of
        (out', Inl e) \<Rightarrow> (out', Inl e)
      | (out', Inr u) \<Rightarrow> seq ss out')"

text \<open>
  Lines 38 to 60: the standard output of the run and how it ends, \<open>Inr ()\<close> for a normal
  end and \<open>Inl e\<close> for an uncaught exception.
\<close>

definition main :: "fs \<Rightarrow> args \<Rightarrow> pystr \<times> (py_error + unit)" where
  "main files a =
     (case analyze_text files (file_path a) [] of
        (out, Inl e) \<Rightarrow> (out, Inl e)
      | (out, Inr st) \<Rightarrow>
          seq
            [if_then (count_lines a) (print_field (lit ''Number of lines: '') lines st),
             if_then (count_chars a) (print_field (lit ''Number of characters: '') chars st),
             if_then (count_empty_lines a)
               (print_field (lit ''Number of empty lines: '') empty_lines st),
             if_then (count_freq a) (print_freq st),
             if_then (\<not> (count_lines a \<or> count_chars a \<or> count_empty_lines a \<or> count_freq a))
               (seq
                  [print_field (lit ''Number of characters: '') chars st,
                   print_field (lit ''Number of lines: '') lines st,
                   print_field (lit ''Number of empty lines: '') empty_lines st,
                   print_freq st])]
            out)"

section \<open>The statistics as the specification words them\<close>

text \<open>
  The number of non-overlapping occurrences of \<open>\n\n\<close>, scanning from the left: after a
  match the scan resumes behind the second newline, otherwise one character further.
\<close>

fun nonoverlapping_nlnl :: "pystr \<Rightarrow> nat" where
  "nonoverlapping_nlnl (a # b # rest) =
     (if a = NL \<and> b = NL then 1 + nonoverlapping_nlnl rest
      else nonoverlapping_nlnl (b # rest))"
| "nonoverlapping_nlnl [a] = 0"
| "nonoverlapping_nlnl [] = 0"

text \<open>The distinct elements of a list, in the order in which each occurs first.\<close>

fun first_occurrences :: "'a list \<Rightarrow> 'a list" where
  "first_occurrences [] = []"
| "first_occurrences (x # xs) = x # first_occurrences (filter (\<lambda>y. y \<noteq> x) xs)"

section \<open>Counting substrings\<close>

lemma count_from_single: "count_from [c] s = count_list s c"
  by (induction s) (simp_all add: count_from.simps [of "[c]"])

lemma count_from_nlnl: "count_from [NL, NL] s = nonoverlapping_nlnl s"
  by (induction s rule: nonoverlapping_nlnl.induct)
    (auto simp: count_from.simps [of "[NL, NL]"])

lemma nonoverlapping_nlnl_le: "2 * nonoverlapping_nlnl s \<le> count_list s NL"
  by (induction s rule: nonoverlapping_nlnl.induct) auto

lemma count_list_le_length: "count_list s c \<le> length s"
  by (induction s) auto

section \<open>The frequency dictionary\<close>

lemma set_first_occurrences: "set (first_occurrences xs) = set xs"
  by (induction xs rule: first_occurrences.induct) auto

lemma distinct_first_occurrences: "distinct (first_occurrences xs)"
  by (induction xs rule: first_occurrences.induct) (auto simp: set_first_occurrences)

lemma first_occurrences_example: "first_occurrences (lit ''abcab'') = lit ''abc''"
  by (simp add: lit_def)

lemma keys_dict_set_old: "k \<in> fst ` set d \<Longrightarrow> map fst (dict_set d k v) = map fst d"
  by (induction d) force+

lemma keys_dict_set_new: "k \<notin> fst ` set d \<Longrightarrow> map fst (dict_set d k v) = map fst d @ [k]"
  by (induction d) force+

lemma keys_set_dict_set: "fst ` set (dict_set d k v) = insert k (fst ` set d)"
  by (cases "k \<in> fst ` set d")
    (use keys_dict_set_old [of k d v] keys_dict_set_new [of k d v] in
      \<open>auto simp flip: set_map\<close>)

lemma set_dict_set: "set (dict_set d k v) \<subseteq> insert (k, v) (set d)"
  by (induction d) (auto split: if_splits)

lemma sum_dict_set:
  "sum_list (map snd (dict_set d k (dict_get d k 0 + 1))) = sum_list (map snd d) + (1::int)"
  by (induction d) auto

lemma dict_get_nonneg: "\<forall>(c, n) \<in> set d. (1::int) \<le> n \<Longrightarrow> 0 \<le> dict_get d k 0"
  by (induction d) auto

lemma dict_get_dict_set:
  "dict_get (dict_set d k v) k' dflt = (if k' = k then v else dict_get d k' dflt)"
  by (induction d) auto

text \<open>The value of a key after the loop: what it was, plus its occurrences in the text.\<close>

lemma freq_loop_get:
  "dict_get (freq_loop d s) k 0 = dict_get d k 0 + int (count_list s k)"
  by (induction s arbitrary: d) (simp_all add: dict_get_dict_set)

lemma freq_loop_sum:
  "sum_list (map snd (freq_loop d s)) = sum_list (map snd d) + int (length s)"
  by (induction s arbitrary: d) (simp_all add: sum_dict_set)

lemma freq_loop_keys_set: "fst ` set (freq_loop d s) = fst ` set d \<union> set s"
  by (induction s arbitrary: d) (simp_all add: keys_set_dict_set)

text \<open>
  The keys of the dictionary after the loop: those it had, then the characters of the
  text that were not yet keys, each where it occurs first.
\<close>

lemma freq_loop_keys:
  "map fst (freq_loop d s) =
     map fst d @ first_occurrences (filter (\<lambda>c. c \<notin> fst ` set d) s)"
proof (induction s arbitrary: d)
  case Nil
  then show ?case by simp
next
  case (Cons x s)
  show ?case
  proof (cases "x \<in> fst ` set d")
    case True
    then show ?thesis
      by (simp add: Cons.IH keys_dict_set_old keys_set_dict_set insert_absorb)
  next
    case False
    have "(\<lambda>c. c \<noteq> x \<and> c \<notin> fst ` set d) = (\<lambda>c. c \<notin> fst ` set d \<and> c \<noteq> x)"
      by auto
    with False show ?thesis
      by (simp add: Cons.IH keys_dict_set_new keys_set_dict_set)
  qed
qed

lemma freq_loop_positive:
  "\<forall>(c, n) \<in> set d. (1::int) \<le> n \<Longrightarrow> \<forall>(c, n) \<in> set (freq_loop d s). 1 \<le> n"
proof (induction s arbitrary: d)
  case Nil
  then show ?case by simp
next
  case (Cons x s)
  let ?v = "dict_get d x 0 + 1"
  have "1 \<le> ?v"
    using dict_get_nonneg [OF Cons.prems, of x] by simp
  with Cons.prems have "\<forall>(c, n) \<in> set (dict_set d x ?v). 1 \<le> n"
    using set_dict_set [of d x ?v] by auto
  then show ?case
    using Cons.IH by simp
qed

section \<open>Properties of the analyzer\<close>

lemma analyze_fields:
  "chars (analyze T) = int (length T)"
  "lines (analyze T) = int (count_list T NL) + 1"
  "empty_lines (analyze T) = int (nonoverlapping_nlnl T)"
  "freq (analyze T) = freq_loop [] T"
  by (simp_all add: analyze_def py_count_def count_from_single count_from_nlnl)

lemma freq_counts: "dict_get (freq (analyze T)) c 0 = int (count_list T c)"
  by (simp add: analyze_fields freq_loop_get)

text \<open>
  C3: the empty-line count of every text is the number of non-overlapping occurrences of
  two consecutive newlines, the scan resuming behind the second newline of a match; on
  \<open>a\n\n\nb\<close> it is 1.
\<close>

theorem empty_lines_nonoverlapping:
  "empty_lines (analyze T) = int (nonoverlapping_nlnl T) \<and>
   empty_lines (analyze (lit ''a'' @ [NL, NL, NL] @ lit ''b'')) = 1"
  by (simp add: analyze_fields lit_def)

text \<open>
  C4: the line count of every text is the number of its newline characters plus 1; a text
  without a newline, the empty text among them, has line count 1.
\<close>

theorem lines_newlines_plus_one:
  "lines (analyze T) = int (count_list T NL) + 1 \<and>
   (NL \<notin> set T \<longrightarrow> lines (analyze T) = 1) \<and>
   lines (analyze []) = 1"
  by (simp add: analyze_fields count_list_0_iff)

theorem lines_newlines_plus_one_witness:
  "NL \<notin> set (lit ''abc'') \<and> lines (analyze (lit ''abc'')) = 1"
  using lines_newlines_plus_one [of "lit ''abc''"] by (simp add: lit_def)

text \<open>C5: the character count of every text is its length in code points.\<close>

theorem chars_length: "chars (analyze T) = int (length T)"
  by (simp add: analyze_fields)

text \<open>
  C6: for every text the character count is the sum of the values of the frequency
  dictionary, the keys of the dictionary are the characters that occur in the text, and
  they stand in the order of their first occurrences.
\<close>

theorem freq_sum_and_order:
  "chars (analyze T) = sum_list (map snd (freq (analyze T))) \<and>
   set (map fst (freq (analyze T))) = set T \<and>
   map fst (freq (analyze T)) = first_occurrences T"
  using freq_loop_sum [of "[]" T] freq_loop_keys [of "[]" T]
  by (simp add: analyze_fields set_first_occurrences flip: set_map)

text \<open>
  C7: the empty text has character count 0, line count 1, empty-line count 0 and an empty
  frequency dictionary.
\<close>

theorem analyze_empty:
  "analyze [] = \<lparr>chars = 0, lines = 1, empty_lines = 0, freq = []\<rparr>"
  by (simp add: analyze_def py_count_def count_from.simps)

text \<open>
  C9: every value of the frequency dictionary of every text is at least 1.
\<close>

theorem freq_values_positive: "\<forall>(c, n) \<in> set (freq (analyze T)). 1 \<le> n"
  using freq_loop_positive [of "[]" T] by (simp add: analyze_fields)

theorem freq_values_positive_witness:
  "(98, 1) \<in> set (freq (analyze (lit ''aba''))) \<and>
   list_all (\<lambda>(c, n). 1 \<le> n) (freq (analyze (lit ''aba'')))"
proof -
  have "freq (analyze (lit ''aba'')) = [(97, 2), (98, 1)]"
    by code_simp
  then have "(98, 1) \<in> set (freq (analyze (lit ''aba'')))"
    by simp
  then show ?thesis
    using freq_values_positive [of "lit ''aba''"] by (simp only: list_all_iff simp_thms)
qed

text \<open>
  C10: for every text, twice the empty-line count is at most the line count minus 1, and
  the line count is at most the character count plus 1.
\<close>

theorem counts_relations:
  "2 * empty_lines (analyze T) \<le> lines (analyze T) - 1 \<and>
   lines (analyze T) \<le> chars (analyze T) + 1"
  using nonoverlapping_nlnl_le [of T] count_list_le_length [of T NL]
  by (simp add: analyze_fields)

section \<open>Properties of the run\<close>

text \<open>
  C2: with \<open>--count-chars --count-lines\<close> on a file holding \<open>hi\nworld\<close> the output is
  exactly two lines, \<open>Number of lines: 2\<close> and then \<open>Number of characters: 8\<close>, and the
  run ends normally.
\<close>

theorem count_chars_count_lines_output:
  "main (files(p \<mapsto> TextFile (lit ''hi'' @ [NL] @ lit ''world'')))
     \<lparr>file_path = p, count_lines = True, count_chars = True,
      count_empty_lines = False, count_freq = False\<rparr> =
   (lit ''Number of lines: 2'' @ [NL] @ lit ''Number of characters: 8'' @ [NL], Inr ())"
proof -
  have read: "universal_newlines (lit ''hi'' @ NL # lit ''world'') = lit ''hi'' @ NL # lit ''world''"
    and fields: "lines (analyze (lit ''hi'' @ NL # lit ''world'')) = 2"
      "chars (analyze (lit ''hi'' @ NL # lit ''world'')) = 8"
    and digits: "str_int 2 = [50]" "str_int 8 = [56]"
    by code_simp+
  show ?thesis
    by (simp add: main_def analyze_text_def read fields digits if_then_def print_field_def
        subscript_def print_def)
      (simp add: lit_def)
qed

theorem count_chars_count_lines_counterexample:
  "fst (main [lit ''hi.txt'' \<mapsto> TextFile (lit ''hi'' @ [NL] @ lit ''world'')]
     \<lparr>file_path = lit ''hi.txt'', count_lines = True, count_chars = True,
      count_empty_lines = False, count_freq = False\<rparr>) \<noteq>
   lit ''Number of characters: 8'' @ [NL] @ lit ''Number of lines: 2'' @ [NL]"
  by code_simp

text \<open>A missing file ends every run in an uncaught \<open>TypeError\<close>, whatever the flags.\<close>

lemma missing_file_raises:
  "files (file_path a) = None \<Longrightarrow> snd (main files a) = Inl TypeError"
  by (simp add: main_def analyze_text_def if_then_def print_field_def print_freq_def
      subscript_def)

text \<open>
  C1: the run on a missing file with the flag \<open>--count-freq\<close> alone: after the message
  \<open>File not found: missing.txt\<close> the header \<open>Character frequency:\<close> is printed, and the
  run ends in an uncaught \<open>TypeError\<close>.
\<close>

theorem missing_file_count_freq_run:
  "main Map.empty
     \<lparr>file_path = lit ''missing.txt'', count_lines = False, count_chars = False,
      count_empty_lines = False, count_freq = True\<rparr> =
   (lit ''File not found: missing.txt'' @ [NL] @ lit ''Character frequency:'' @ [NL],
    Inl TypeError)"
  by (simp add: main_def analyze_text_def print_def if_then_def print_freq_def
      subscript_def lit_def)

end
